theory Spec2Isabelle
  imports Main
begin

section \<open>Arrays: element type, shape and row-major contents\<close>

text \<open>
  The element types of numeric NumPy arrays. Arrays of objects, strings, dates or records
  are not numeric arrays and lie outside the input type.
\<close>

datatype dtype =
    Bool | Int8 | Int16 | Int32 | Int64 | UInt8 | UInt16 | UInt32 | UInt64
  | Float16 | Float32 | Float64 | LongDouble | Complex64 | Complex128 | CLongDouble

text \<open>
  A NumPy array or Torch tensor is modelled by its element type, by whether its elements
  are stored in the byte order opposite to the machine's, by its shape and by its
  elements listed in logical (row-major, C) order. A view and a copy of an array differ
  only in the memory they own, so \<open>.copy()\<close> is the identity on this model. The values
  are of a type parameter. Element types of one byte have no byte order, so the flag is
  \<open>False\<close> for them.
\<close>

record 'a ndarray =
  dtype :: dtype
  byteswapped :: bool
  shape :: "nat list"
  data :: "'a list"

text \<open>Offset of a multi-index in row-major order, and the multi-index of an offset.\<close>

fun ravel :: "nat list \<Rightarrow> nat list \<Rightarrow> nat" where
  "ravel (d # ds) (i # is) = i * prod_list ds + ravel ds is"
| "ravel _ _ = 0"

fun unravel :: "nat list \<Rightarrow> nat \<Rightarrow> nat list" where
  "unravel [] k = []"
| "unravel (d # ds) k = (k div prod_list ds) # unravel ds (k mod prod_list ds)"

definition item :: "'a ndarray \<Rightarrow> nat list \<Rightarrow> 'a" where
  "item a idx = data a ! ravel (shape a) idx"

text \<open>
  The array of a given shape whose element at each multi-index is given by a function,
  with the element type and byte order of the array it is derived from.
\<close>

definition tabulate :: "'a ndarray \<Rightarrow> nat list \<Rightarrow> (nat list \<Rightarrow> 'a) \<Rightarrow> 'a ndarray" where
  "tabulate src sh f =
     \<lparr>dtype = dtype src, byteswapped = byteswapped src, shape = sh,
      data = map (\<lambda>k. f (unravel sh k)) [0..<prod_list sh]\<rparr>"

definition wellformed :: "'a ndarray \<Rightarrow> bool" where
  "wellformed a = (length (data a) = prod_list (shape a))"

section \<open>Errors\<close>

text \<open>
  The exceptions the function and the library calls it makes can raise. In NumPy
  \<open>AxisError\<close> is a subclass of both \<open>ValueError\<close> and \<open>IndexError\<close>.
\<close>

datatype error =
  AssertionError | ValueError | AxisError | IndexError | TypeError | RuntimeError

definition is_ValueError :: "error \<Rightarrow> bool" where
  "is_ValueError e = (e = ValueError \<or> e = AxisError)"

section \<open>The library operations the function calls\<close>

text \<open>\<open>arr[None, ...]\<close>: a new leading axis of length 1.\<close>

definition new_axis :: "'a ndarray \<Rightarrow> 'a ndarray" where
  "new_axis a = a\<lparr>shape := 1 # shape a\<rparr>"

text \<open>
  \<open>numpy.lib.stride_tricks.sliding_window_view(x, window_shape=(H, W), axis=(-2, -1))\<close>.
  Negative window sizes are refused first, then the axes are normalised (an array of rank
  below 2 has no axis \<open>-2\<close>), then each window size is compared with the extent of its
  axis. The view has the shape of \<open>x\<close> with the last two extents trimmed to the number
  of window positions, followed by the window shape; its element at
  \<open>(..., i, j, a, b)\<close> is \<open>x[..., i + a, j + b]\<close>.
\<close>

definition sliding_window_view :: "'a ndarray \<Rightarrow> int \<times> int \<Rightarrow> error + 'a ndarray" where
  "sliding_window_view x window_shape =
     (case window_shape of (H, W) \<Rightarrow>
        if H < 0 \<or> W < 0 then Inl ValueError
        else if length (shape x) < 2 then Inl AxisError
        else
          let r = length (shape x);
              dH = shape x ! (r - 2);
              dW = shape x ! (r - 1);
              kH = nat H;
              kW = nat W
          in if dH < kH then Inl ValueError
             else if dW < kW then Inl ValueError
             else Inr (tabulate x (take (r - 2) (shape x) @ [dH + 1 - kH, dW + 1 - kW, kH, kW])
                        (\<lambda>idx. item x (take (r - 2) idx @
                                  [idx ! (r - 2) + idx ! r, idx ! (r - 1) + idx ! (r + 1)]))))"

text \<open>
  The slice \<open>::step\<close> on an axis of length \<open>d\<close>, as CPython adjusts it: for a positive
  step it starts at 0 and stops before \<open>d\<close>, for a negative step it starts at \<open>d - 1\<close>
  and stops after 0. Either way it selects \<open>(d - 1) div |step| + 1\<close> positions when
  \<open>d > 0\<close> and none otherwise.
\<close>

definition slice_len :: "nat \<Rightarrow> int \<Rightarrow> nat" where
  "slice_len d step = (if d = 0 then 0 else (d - 1) div nat \<bar>step\<bar> + 1)"

definition slice_pos :: "nat \<Rightarrow> int \<Rightarrow> nat \<Rightarrow> nat" where
  "slice_pos d step i = (if 0 < step then i * nat step else d - 1 - i * nat (- step))"

text \<open>
  \<open>windows[:, :, ::stride, ::stride, :, :]\<close>: six indices need an array of rank at least
  6, and a slice step of zero is a \<open>ValueError\<close>. Axes 2 and 3 are subsampled, every
  other axis is kept whole.
\<close>

definition subsample :: "'a ndarray \<Rightarrow> int \<Rightarrow> error + 'a ndarray" where
  "subsample w step =
     (if length (shape w) < 6 then Inl IndexError
      else if step = 0 then Inl ValueError
      else
        let sh = shape w; d2 = sh ! 2; d3 = sh ! 3
        in Inr (tabulate w (take 2 sh @ [slice_len d2 step, slice_len d3 step] @ drop 4 sh)
                 (\<lambda>idx. item w (take 2 idx @
                           [slice_pos d2 step (idx ! 2), slice_pos d3 step (idx ! 3)] @
                           drop 4 idx))))"

text \<open>
  \<open>torch.from_numpy\<close> on a freshly copied array (contiguous, writable, of non-negative
  strides). Torch first refuses an array whose byte order is not the machine's, with
  \<open>ValueError\<close>, then an element type it has no tensor type for, with \<open>TypeError\<close>. The
  element types it converts are those of Torch 2.3 and later: the booleans, the signed
  and unsigned integers of 8 to 64 bits, the floats of 16 to 64 bits and the complex
  numbers of 64 and 128 bits; the extended-precision types are not among them.
\<close>

fun torch_supports :: "dtype \<Rightarrow> bool" where
  "torch_supports LongDouble = False"
| "torch_supports CLongDouble = False"
| "torch_supports _ = True"

definition from_numpy :: "'a ndarray \<Rightarrow> error + 'a ndarray" where
  "from_numpy w =
     (if byteswapped w then Inl ValueError
      else if torch_supports (dtype w) then Inr w
      else Inl TypeError)"

definition torch_accepts :: "'a ndarray \<Rightarrow> bool" where
  "torch_accepts w = (\<not> byteswapped w \<and> torch_supports (dtype w))"

text \<open>
  \<open>.permute(0, 2, 3, 1, 4, 5)\<close>: Torch refuses an ordering whose length is not the rank
  of the tensor. Axis \<open>k\<close> of the result is axis \<open>[0, 2, 3, 1, 4, 5] ! k\<close> of the input.
\<close>

definition permute :: "'a ndarray \<Rightarrow> error + 'a ndarray" where
  "permute t =
     (if length (shape t) = 6 then
        let sh = shape t
        in Inr (tabulate t [sh ! 0, sh ! 2, sh ! 3, sh ! 1, sh ! 4, sh ! 5]
                 (\<lambda>idx. item t [idx ! 0, idx ! 3, idx ! 1, idx ! 2, idx ! 4, idx ! 5]))
      else Inl RuntimeError)"

text \<open>
  \<open>.reshape(-1, C, H, W)\<close>: Torch infers the leading extent when the product of the given
  extents is positive and divides the number of elements; a product of zero leaves the
  inferred extent ambiguous and is refused, as is a product that does not divide. The
  elements keep their row-major order.
\<close>

definition reshape :: "'a ndarray \<Rightarrow> nat \<Rightarrow> nat \<Rightarrow> nat \<Rightarrow> error + 'a ndarray" where
  "reshape t C H W =
     (let numel = prod_list (shape t); newsize = C * H * W
      in if 0 < newsize \<and> numel mod newsize = 0
         then Inr (t\<lparr>shape := [numel div newsize, C, H, W]\<rparr>)
         else Inl RuntimeError)"

text \<open>\<open>.squeeze()\<close>: every axis of length 1 is dropped.\<close>

definition squeeze :: "'a ndarray \<Rightarrow> 'a ndarray" where
  "squeeze t = t\<lparr>shape := filter (\<lambda>d. d \<noteq> 1) (shape t)\<rparr>"

section \<open>Reads of the array argument\<close>

text \<open>
  What the function does to the array it is given is kept in a log, threaded through the
  function as state. Every operation that touches the argument, or a view that shares its
  memory, appends its event: reading \<open>.shape\<close>, indexing, handing the array to
  \<open>sliding_window_view\<close> (which reads its shape and strides), and copying the selected
  windows (which reads its elements). After the copy the windows own their memory, and
  the later tensor operations no longer touch the argument.
\<close>

datatype access = ReadShape | Index | WindowView | CopyElements

definition read_shape :: "'a ndarray \<Rightarrow> access list \<Rightarrow> nat list \<times> access list" where
  "read_shape arr log = (shape arr, log @ [ReadShape])"

definition index_new_axis :: "'a ndarray \<Rightarrow> access list \<Rightarrow> 'a ndarray \<times> access list" where
  "index_new_axis arr log = (new_axis arr, log @ [Index])"

definition index_new_axes :: "'a ndarray \<Rightarrow> access list \<Rightarrow> 'a ndarray \<times> access list" where
  "index_new_axes arr log = (new_axis (new_axis arr), log @ [Index])"

definition window_view ::
    "'a ndarray \<Rightarrow> int \<times> int \<Rightarrow> access list \<Rightarrow> (error + 'a ndarray) \<times> access list" where
  "window_view arr window_shape log = (sliding_window_view arr window_shape, log @ [WindowView])"

definition subsample_copy ::
    "'a ndarray \<Rightarrow> int \<Rightarrow> access list \<Rightarrow> (error + 'a ndarray) \<times> access list" where
  "subsample_copy w step log =
     (case subsample w step of
        Inl e \<Rightarrow> (Inl e, log)
      | Inr v \<Rightarrow> (Inr v, log @ [CopyElements]))"

section \<open>The function\<close>

text \<open>
  Lines 57 to 64: the rank test and the standardisation to \<open>(N, C, H, W)\<close>, with the
  channel count \<open>C\<close> the function records. The \<open>if\<close> and the \<open>elif\<close> each read
  \<open>arr.shape\<close>; \<open>arr[None, ...]\<close> and \<open>arr[None, None, ...]\<close> are one indexing each; line 59
  reads the shape of the new view.
\<close>

definition standardise ::
    "'a ndarray \<Rightarrow> access list \<Rightarrow> ('a ndarray \<times> nat) \<times> access list" where
  "standardise arr log =
     (case read_shape arr log of (sh, log1) \<Rightarrow>
        if length sh = 3 then
          (case index_new_axis arr log1 of (a, log2) \<Rightarrow>
             (case read_shape a log2 of (sh', log3) \<Rightarrow> ((a, sh' ! 1), log3)))
        else
          (case read_shape arr log1 of (sh2, log2) \<Rightarrow>
             if length sh2 = 2 then
               (case index_new_axes arr log2 of (a, log3) \<Rightarrow> ((a, 1), log3))
             else ((arr, 3), log2)))"

definition normalize_rank :: "'a ndarray \<Rightarrow> 'a ndarray \<times> nat" where
  "normalize_rank arr = fst (standardise arr [])"

text \<open>
  Lines 66 to 69: the window view, its subsampling and copy, the tensor made from the
  copy, and its permutation and reshape, before the final squeeze. The first library call
  that raises ends the function.
\<close>

definition extract_traced ::
    "'a ndarray \<Rightarrow> nat \<Rightarrow> int \<times> int \<Rightarrow> int \<Rightarrow> access list \<Rightarrow> (error + 'a ndarray) \<times> access list" where
  "extract_traced arr C kernel' stride log =
     (case kernel' of (H, W) \<Rightarrow>
        (case window_view arr (H, W) log of
           (Inl e, log1) \<Rightarrow> (Inl e, log1)
         | (Inr windows, log1) \<Rightarrow>
             (case subsample_copy windows stride log1 of
                (Inl e, log2) \<Rightarrow> (Inl e, log2)
              | (Inr windows, log2) \<Rightarrow>
                  (case from_numpy windows of
                     Inl e \<Rightarrow> (Inl e, log2)
                   | Inr t \<Rightarrow>
                       (case permute t of
                          Inl e \<Rightarrow> (Inl e, log2)
                        | Inr t \<Rightarrow> (reshape t C (nat H) (nat W), log2))))))"

definition extract_patches :: "'a ndarray \<Rightarrow> nat \<Rightarrow> int \<times> int \<Rightarrow> int \<Rightarrow> error + 'a ndarray" where
  "extract_patches arr C kernel' stride = fst (extract_traced arr C kernel' stride [])"

text \<open>
  The whole function, from a given log: the check of line 52 comes first and looks at
  \<open>kernel\<close> and \<open>stride\<close> only.
\<close>

definition run ::
    "'a ndarray \<Rightarrow> (int \<times> int) option \<Rightarrow> int option \<Rightarrow> access list \<Rightarrow>
       (error + 'a ndarray) \<times> access list" where
  "run arr kernel' stride log =
     (case kernel' of
        None \<Rightarrow> (Inl AssertionError, log)
      | Some k \<Rightarrow>
          (case stride of
             None \<Rightarrow> (Inl AssertionError, log)
           | Some s \<Rightarrow>
               (case standardise arr log of ((a, C), log1) \<Rightarrow>
                  (case extract_traced a C k s log1 of
                     (Inl e, log2) \<Rightarrow> (Inl e, log2)
                   | (Inr windows, log2) \<Rightarrow> (Inr (squeeze windows), log2)))))"

text \<open>What a call returns or raises, and what it has done to its array argument.\<close>

definition sliding_window_snapshots ::
    "'a ndarray \<Rightarrow> (int \<times> int) option \<Rightarrow> int option \<Rightarrow> error + 'a ndarray" where
  "sliding_window_snapshots arr kernel' stride = fst (run arr kernel' stride [])"

definition array_reads :: "'a ndarray \<Rightarrow> (int \<times> int) option \<Rightarrow> int option \<Rightarrow> access list" where
  "array_reads arr kernel' stride = snd (run arr kernel' stride [])"

definition array_accessed :: "'a ndarray \<Rightarrow> (int \<times> int) option \<Rightarrow> int option \<Rightarrow> bool" where
  "array_accessed arr kernel' stride = (array_reads arr kernel' stride \<noteq> [])"

section \<open>Sample arrays\<close>

definition int64_array :: "nat list \<Rightarrow> int list \<Rightarrow> int ndarray" where
  "int64_array sh xs = \<lparr>dtype = Int64, byteswapped = False, shape = sh, data = xs\<rparr>"

definition example_4x4 :: "int ndarray" where
  "example_4x4 = int64_array [4, 4] [0, 1, 2, 3, 4, 5, 6, 7, 8, 9, 10, 11, 12, 13, 14, 15]"

definition gray_2x2 :: "int ndarray" where
  "gray_2x2 = int64_array [2, 2] [5, 6, 7, 8]"

definition rgb_2x2 :: "int ndarray" where
  "rgb_2x2 = int64_array [3, 2, 2] [0, 1, 2, 3, 4, 5, 6, 7, 8, 9, 10, 11]"

definition rgb_4x4 :: "int ndarray" where
  "rgb_4x4 = int64_array [3, 4, 4] (map int [0..<48])"


definition batch_one_channel :: "int ndarray" where
  "batch_one_channel = int64_array [1, 1, 2, 2] [0, 1, 2, 3]"

definition batch_six_channels :: "int ndarray" where
  "batch_six_channels = int64_array [1, 6, 1, 1] [0, 1, 2, 3, 4, 5]"

definition rank5_array :: "int ndarray" where
  "rank5_array = int64_array [1, 1, 1, 2, 2] [0, 1, 2, 3]"


section \<open>The function without its log\<close>

text \<open>
  The log never influences a value: the standardised array, the patches and the result
  of a call are given by the same steps with the log left out.
\<close>

lemma standardise_value:
  "fst (standardise arr log) =
     (if length (shape arr) = 3 then (let a = new_axis arr in (a, shape a ! 1))
      else if length (shape arr) = 2 then (new_axis (new_axis arr), 1)
      else (arr, 3))"
  by (simp add: standardise_def read_shape_def index_new_axis_def index_new_axes_def Let_def)

lemma normalize_rank_eq:
  "normalize_rank arr =
     (if length (shape arr) = 3 then (let a = new_axis arr in (a, shape a ! 1))
      else if length (shape arr) = 2 then (new_axis (new_axis arr), 1)
      else (arr, 3))"
  by (simp add: normalize_rank_def standardise_value)

lemma standardise_normalize_rank: "fst (standardise arr log) = normalize_rank arr"
  by (simp add: normalize_rank_eq standardise_value)

lemma extract_traced_value:
  "fst (extract_traced arr C k s log) =
     (case k of (H, W) \<Rightarrow>
        (case sliding_window_view arr (H, W) of
           Inl e \<Rightarrow> Inl e
         | Inr windows \<Rightarrow>
             (case subsample windows s of
                Inl e \<Rightarrow> Inl e
              | Inr windows \<Rightarrow>
                  (case from_numpy windows of
                     Inl e \<Rightarrow> Inl e
                   | Inr t \<Rightarrow>
                       (case permute t of
                          Inl e \<Rightarrow> Inl e
                        | Inr t \<Rightarrow> reshape t C (nat H) (nat W))))))"
  by (simp add: extract_traced_def window_view_def subsample_copy_def split: prod.splits sum.splits)

lemma extract_patches_eq:
  "extract_patches arr C k s =
     (case k of (H, W) \<Rightarrow>
        (case sliding_window_view arr (H, W) of
           Inl e \<Rightarrow> Inl e
         | Inr windows \<Rightarrow>
             (case subsample windows s of
                Inl e \<Rightarrow> Inl e
              | Inr windows \<Rightarrow>
                  (case from_numpy windows of
                     Inl e \<Rightarrow> Inl e
                   | Inr t \<Rightarrow>
                       (case permute t of
                          Inl e \<Rightarrow> Inl e
                        | Inr t \<Rightarrow> reshape t C (nat H) (nat W))))))"
  by (simp add: extract_patches_def extract_traced_value)

lemma extract_traced_patches: "fst (extract_traced arr C k s log) = extract_patches arr C k s"
  by (simp add: extract_patches_eq extract_traced_value)

lemma sliding_window_snapshots_eq:
  "sliding_window_snapshots arr kernel' stride =
     (case kernel' of
        None \<Rightarrow> Inl AssertionError
      | Some k \<Rightarrow>
          (case stride of
             None \<Rightarrow> Inl AssertionError
           | Some s \<Rightarrow>
               (case normalize_rank arr of (a, C) \<Rightarrow>
                  (case extract_patches a C k s of
                     Inl e \<Rightarrow> Inl e
                   | Inr windows \<Rightarrow> Inr (squeeze windows)))))"
proof (cases kernel')
  case None
  then show ?thesis by (simp add: sliding_window_snapshots_def run_def)
next
  case (Some k)
  show ?thesis
  proof (cases stride)
    case None
    then show ?thesis by (simp add: sliding_window_snapshots_def run_def Some)
  next
    case s: (Some s)
    obtain a C log1 where st: "standardise arr [] = ((a, C), log1)"
      by (metis prod.exhaust)
    have n: "normalize_rank arr = (a, C)"
      by (simp add: normalize_rank_def st)
    obtain r log2 where ex: "extract_traced a C k s log1 = (r, log2)"
      by (metis prod.exhaust)
    have r: "extract_patches a C k s = r"
      using extract_traced_patches[of a C k s log1] by (simp add: ex)
    show ?thesis
      by (cases r) (simp_all add: sliding_window_snapshots_def run_def Some s st n ex r)
  qed
qed

text \<open>A call that passes the check of line 52 starts by reading the shape of the array.\<close>

lemma standardise_log: "\<exists>rest. snd (standardise arr log) = log @ ReadShape # rest"
  by (simp add: standardise_def read_shape_def index_new_axis_def index_new_axes_def)

text \<open>
  Standardising the array before the check of line 52 would therefore show in the log.
\<close>

lemma standardise_touches_array: "snd (standardise arr log) \<noteq> log"
  using standardise_log[of arr log] by auto

lemma extract_traced_log: "\<exists>rest. snd (extract_traced arr C k s log) = log @ rest"
  by (cases k)
    (auto simp: extract_traced_def window_view_def subsample_copy_def split: sum.splits)

lemma run_log:
  "\<exists>rest. snd (run arr (Some k) (Some s) log) = log @ ReadShape # rest"
proof -
  obtain a C log1 where st: "standardise arr log = ((a, C), log1)"
    by (metis prod.exhaust)
  from standardise_log[of arr log] obtain r1 where l1: "log1 = log @ ReadShape # r1"
    by (auto simp: st)
  obtain r log2 where ex: "extract_traced a C k s log1 = (r, log2)"
    by (metis prod.exhaust)
  from extract_traced_log[of a C k s log1] obtain r2 where l2: "log2 = log1 @ r2"
    by (auto simp: ex)
  have "snd (run arr (Some k) (Some s) log) = log2"
    by (cases r) (simp_all add: run_def st ex)
  then show ?thesis by (simp add: l1 l2)
qed

lemma passed_check_reads_array: "array_accessed arr (Some k) (Some s)"
  using run_log[of arr k s "[]"] by (auto simp: array_accessed_def array_reads_def)

section \<open>Index arithmetic\<close>

lemma ravel_less: "list_all2 (<) idx sh \<Longrightarrow> ravel sh idx < prod_list sh"
proof (induction idx sh rule: list_all2_induct)
  case Nil
  then show ?case by simp
next
  case (Cons i js d ds)
  have "i * prod_list ds + ravel ds js < i * prod_list ds + prod_list ds"
    using Cons.IH by simp
  also have "\<dots> = Suc i * prod_list ds" by simp
  also have "\<dots> \<le> d * prod_list ds"
    using Cons.hyps(1) by (intro mult_le_mono1) simp
  finally show ?case by simp
qed

lemma unravel_ravel: "list_all2 (<) idx sh \<Longrightarrow> unravel sh (ravel sh idx) = idx"
proof (induction idx sh rule: list_all2_induct)
  case Nil
  then show ?case by simp
next
  case (Cons i js d ds)
  have r: "ravel ds js < prod_list ds"
    using Cons.hyps(2) by (rule ravel_less)
  then show ?case using Cons.IH by simp
qed

lemma item_tabulate: "list_all2 (<) idx sh \<Longrightarrow> item (tabulate src sh f) idx = f idx"
  by (simp add: item_def tabulate_def ravel_less unravel_ravel)

lemma shape_tabulate: "shape (tabulate src sh f) = sh"
  by (simp add: tabulate_def)

lemma torch_accepts_tabulate: "torch_accepts (tabulate src sh f) = torch_accepts src"
  by (simp add: tabulate_def torch_accepts_def)

lemma wellformed_tabulate: "wellformed (tabulate src sh f)"
  by (simp add: tabulate_def wellformed_def)

lemma slice_pos_less:
  assumes "s \<noteq> 0" "i < slice_len d s"
  shows "slice_pos d s i < d"
proof -
  have d: "0 < d" using assms(2) by (auto simp: slice_len_def split: if_splits)
  define m where "m = nat \<bar>s\<bar>"
  have m: "0 < m" using assms(1) by (simp add: m_def)
  have "i \<le> (d - 1) div m" using assms(2) d by (simp add: slice_len_def m_def)
  then have "i * m \<le> (d - 1) div m * m" by (rule mult_le_mono1)
  also have "\<dots> \<le> d - 1" by simp
  finally have im: "i * m \<le> d - 1" .
  show ?thesis
  proof (cases "0 < s")
    case True
    then have "slice_pos d s i = i * m" by (simp add: slice_pos_def m_def)
    then show ?thesis using im d by simp
  next
    case False
    then have "slice_pos d s i = d - 1 - i * m" using assms(1) by (simp add: slice_pos_def m_def)
    then show ?thesis using d by simp
  qed
qed

section \<open>The stages on a standardised array\<close>

lemma sliding_window_view_rank4:
  assumes "shape x = [N, C, Hd, Wd]" "kH \<le> Hd" "kW \<le> Wd"
  shows "\<exists>w. sliding_window_view x (int kH, int kW) = Inr w
    \<and> shape w = [N, C, Hd + 1 - kH, Wd + 1 - kW, kH, kW]
    \<and> torch_accepts w = torch_accepts x
    \<and> (\<forall>n c i j a b. n < N \<longrightarrow> c < C \<longrightarrow> i < Hd + 1 - kH \<longrightarrow> j < Wd + 1 - kW \<longrightarrow>
           a < kH \<longrightarrow> b < kW \<longrightarrow> item w [n, c, i, j, a, b] = item x [n, c, i + a, j + b])"
proof -
  define w where "w = tabulate x [N, C, Hd + 1 - kH, Wd + 1 - kW, kH, kW]
     (\<lambda>idx. item x (take 2 idx @ [idx ! 2 + idx ! 4, idx ! 3 + idx ! 5]))"
  have 1: "sliding_window_view x (int kH, int kW) = Inr w"
    using assms by (simp add: sliding_window_view_def Let_def w_def eval_nat_numeral)
  have 2: "shape w = [N, C, Hd + 1 - kH, Wd + 1 - kW, kH, kW]" "torch_accepts w = torch_accepts x"
    by (simp_all add: w_def shape_tabulate torch_accepts_tabulate)
  have 3: "item w [n, c, i, j, a, b] = item x [n, c, i + a, j + b]"
    if "n < N" "c < C" "i < Hd + 1 - kH" "j < Wd + 1 - kW" "a < kH" "b < kW" for n c i j a b
    unfolding w_def using that by (subst item_tabulate) simp_all
  from 1 2 3 show ?thesis by blast
qed

lemma subsample_rank6:
  assumes "shape w = [N, C, dH, dW, kH, kW]" "s \<noteq> 0"
  shows "\<exists>v. subsample w s = Inr v
    \<and> shape v = [N, C, slice_len dH s, slice_len dW s, kH, kW]
    \<and> torch_accepts v = torch_accepts w
    \<and> (\<forall>n c i j a b. n < N \<longrightarrow> c < C \<longrightarrow> i < slice_len dH s \<longrightarrow> j < slice_len dW s \<longrightarrow>
           a < kH \<longrightarrow> b < kW \<longrightarrow>
           item v [n, c, i, j, a, b] = item w [n, c, slice_pos dH s i, slice_pos dW s j, a, b])"
proof -
  define v where "v = tabulate w [N, C, slice_len dH s, slice_len dW s, kH, kW]
     (\<lambda>idx. item w (take 2 idx @ [slice_pos dH s (idx ! 2), slice_pos dW s (idx ! 3)] @ drop 4 idx))"
  have 1: "subsample w s = Inr v"
    using assms by (simp add: subsample_def Let_def v_def)
  have 2: "shape v = [N, C, slice_len dH s, slice_len dW s, kH, kW]" "torch_accepts v = torch_accepts w"
    by (simp_all add: v_def shape_tabulate torch_accepts_tabulate)
  have 3: "item v [n, c, i, j, a, b] = item w [n, c, slice_pos dH s i, slice_pos dW s j, a, b]"
    if "n < N" "c < C" "i < slice_len dH s" "j < slice_len dW s" "a < kH" "b < kW" for n c i j a b
    unfolding v_def using that by (subst item_tabulate) simp_all
  from 1 2 3 show ?thesis by blast
qed

lemma permute_rank6:
  assumes "shape v = [N, C, Hp, Wp, kH, kW]"
  shows "\<exists>u. permute v = Inr u
    \<and> shape u = [N, Hp, Wp, C, kH, kW]
    \<and> wellformed u
    \<and> (\<forall>n c i j a b. n < N \<longrightarrow> c < C \<longrightarrow> i < Hp \<longrightarrow> j < Wp \<longrightarrow> a < kH \<longrightarrow> b < kW \<longrightarrow>
           item u [n, i, j, c, a, b] = item v [n, c, i, j, a, b])"
proof -
  define u where "u = tabulate v [N, Hp, Wp, C, kH, kW]
     (\<lambda>idx. item v [idx ! 0, idx ! 3, idx ! 1, idx ! 2, idx ! 4, idx ! 5])"
  have 1: "permute v = Inr u"
    using assms by (simp add: permute_def Let_def u_def)
  have 2: "shape u = [N, Hp, Wp, C, kH, kW]" "wellformed u"
    by (simp_all add: u_def shape_tabulate wellformed_tabulate)
  have 3: "item u [n, i, j, c, a, b] = item v [n, c, i, j, a, b]"
    if "n < N" "c < C" "i < Hp" "j < Wp" "a < kH" "b < kW" for n c i j a b
    unfolding u_def using that by (subst item_tabulate) simp_all
  from 1 2 3 show ?thesis by blast
qed

lemma reshape_rank6:
  assumes "shape u = [N, Hp, Wp, C, kH, kW]" "0 < C" "0 < kH" "0 < kW"
  shows "\<exists>t. reshape u C kH kW = Inr t
    \<and> shape t = [N * Hp * Wp, C, kH, kW]
    \<and> data t = data u
    \<and> (\<forall>n c i j a b. item t [(n * Hp + i) * Wp + j, c, a, b] = item u [n, i, j, c, a, b])"
proof -
  define t where "t = u\<lparr>shape := [N * Hp * Wp, C, kH, kW]\<rparr>"
  have p: "prod_list (shape u) = (N * Hp * Wp) * (C * kH * kW)"
    by (simp add: assms(1))
  have 1: "reshape u C kH kW = Inr t"
    unfolding reshape_def Let_def p t_def using assms(2-4) by simp
  have 2: "shape t = [N * Hp * Wp, C, kH, kW]" "data t = data u"
    by (simp_all add: t_def)
  have 3: "item t [(n * Hp + i) * Wp + j, c, a, b] = item u [n, i, j, c, a, b]" for n c i j a b
    by (simp add: item_def t_def assms(1) algebra_simps)
  from 1 2 3 show ?thesis by blast
qed

lemma from_numpy_accepted: "torch_accepts w \<Longrightarrow> from_numpy w = Inr w"
  by (simp add: from_numpy_def torch_accepts_def)

lemma from_numpy_Inr: "from_numpy w = Inr t \<Longrightarrow> t = w"
  by (auto simp: from_numpy_def split: if_splits)

lemma extract_patches_content:
  assumes sh: "shape x = [N, C, Hd, Wd]"
    and pos: "0 < C" "0 < kH" "0 < kW"
    and fit: "kH \<le> Hd" "kW \<le> Wd"
    and s: "s \<noteq> 0"
    and acc: "torch_accepts x"
  shows "\<exists>t. extract_patches x C (int kH, int kW) s = Inr t
    \<and> shape t = [N * slice_len (Hd + 1 - kH) s * slice_len (Wd + 1 - kW) s, C, kH, kW]
    \<and> wellformed t
    \<and> (\<forall>n c i j a b. n < N \<longrightarrow> c < C \<longrightarrow> i < slice_len (Hd + 1 - kH) s \<longrightarrow>
           j < slice_len (Wd + 1 - kW) s \<longrightarrow> a < kH \<longrightarrow> b < kW \<longrightarrow>
           item t [(n * slice_len (Hd + 1 - kH) s + i) * slice_len (Wd + 1 - kW) s + j, c, a, b] =
           item x [n, c, slice_pos (Hd + 1 - kH) s i + a, slice_pos (Wd + 1 - kW) s j + b])"
proof -
  define Hp where "Hp = slice_len (Hd + 1 - kH) s"
  define Wp where "Wp = slice_len (Wd + 1 - kW) s"
  obtain w where w: "sliding_window_view x (int kH, int kW) = Inr w"
    "shape w = [N, C, Hd + 1 - kH, Wd + 1 - kW, kH, kW]"
    "\<forall>n c i j a b. n < N \<longrightarrow> c < C \<longrightarrow> i < Hd + 1 - kH \<longrightarrow> j < Wd + 1 - kW \<longrightarrow>
       a < kH \<longrightarrow> b < kW \<longrightarrow> item w [n, c, i, j, a, b] = item x [n, c, i + a, j + b]"
    and aw: "torch_accepts w = torch_accepts x"
    using sliding_window_view_rank4[OF sh fit] by blast
  obtain v where v: "subsample w s = Inr v"
    "shape v = [N, C, Hp, Wp, kH, kW]"
    "\<forall>n c i j a b. n < N \<longrightarrow> c < C \<longrightarrow> i < Hp \<longrightarrow> j < Wp \<longrightarrow> a < kH \<longrightarrow> b < kW \<longrightarrow>
       item v [n, c, i, j, a, b] =
       item w [n, c, slice_pos (Hd + 1 - kH) s i, slice_pos (Wd + 1 - kW) s j, a, b]"
    and av: "torch_accepts v = torch_accepts w"
    unfolding Hp_def Wp_def using subsample_rank6[OF w(2) s] by blast
  have f: "from_numpy v = Inr v"
    using acc aw av by (simp add: from_numpy_accepted)
  obtain u where u: "permute v = Inr u"
    "shape u = [N, Hp, Wp, C, kH, kW]"
    "wellformed u"
    "\<forall>n c i j a b. n < N \<longrightarrow> c < C \<longrightarrow> i < Hp \<longrightarrow> j < Wp \<longrightarrow> a < kH \<longrightarrow> b < kW \<longrightarrow>
       item u [n, i, j, c, a, b] = item v [n, c, i, j, a, b]"
    using permute_rank6[OF v(2)] by blast
  obtain t where t: "reshape u C kH kW = Inr t"
    "shape t = [N * Hp * Wp, C, kH, kW]"
    "data t = data u"
    "\<forall>n c i j a b. item t [(n * Hp + i) * Wp + j, c, a, b] = item u [n, i, j, c, a, b]"
    using reshape_rank6[OF u(2) pos] by blast
  have 1: "extract_patches x C (int kH, int kW) s = Inr t"
    by (simp add: extract_patches_eq w(1) v(1) f u(1) t(1))
  have 2: "wellformed t"
    using u(3) by (simp add: wellformed_def t(2,3) u(2) mult.assoc)
  have 3: "item t [(n * Hp + i) * Wp + j, c, a, b] =
      item x [n, c, slice_pos (Hd + 1 - kH) s i + a, slice_pos (Wd + 1 - kW) s j + b]"
    if b: "n < N" "c < C" "i < Hp" "j < Wp" "a < kH" "b < kW" for n c i j a b
  proof -
    have i': "slice_pos (Hd + 1 - kH) s i < Hd + 1 - kH"
      using s b(3) unfolding Hp_def by (rule slice_pos_less)
    have j': "slice_pos (Wd + 1 - kW) s j < Wd + 1 - kW"
      using s b(4) unfolding Wp_def by (rule slice_pos_less)
    have "item t [(n * Hp + i) * Wp + j, c, a, b] = item u [n, i, j, c, a, b]"
      using t(4) by blast
    also have "\<dots> = item v [n, c, i, j, a, b]"
      using b u(4) by blast
    also have "\<dots> = item w [n, c, slice_pos (Hd + 1 - kH) s i, slice_pos (Wd + 1 - kW) s j, a, b]"
      using b v(3) by blast
    also have "\<dots> = item x [n, c, slice_pos (Hd + 1 - kH) s i + a, slice_pos (Wd + 1 - kW) s j + b]"
      using b(1,2) i' j' b(5,6) w(3) by blast
    finally show ?thesis .
  qed
  show ?thesis
    using 1 t(2) 2 3 unfolding Hp_def Wp_def by blast
qed

lemma snapshots_content:
  assumes norm: "normalize_rank arr = (x, C)"
    and sh: "shape x = [N, C, Hd, Wd]"
    and pos: "0 < C" "0 < kH" "0 < kW"
    and fit: "kH \<le> Hd" "kW \<le> Wd"
    and s: "s \<noteq> 0"
    and acc: "torch_accepts x"
  shows "\<exists>t. sliding_window_snapshots arr (Some (int kH, int kW)) (Some s) = Inr (squeeze t)
    \<and> extract_patches x C (int kH, int kW) s = Inr t
    \<and> shape t = [N * slice_len (Hd + 1 - kH) s * slice_len (Wd + 1 - kW) s, C, kH, kW]
    \<and> wellformed t
    \<and> (\<forall>n c i j a b. n < N \<longrightarrow> c < C \<longrightarrow> i < slice_len (Hd + 1 - kH) s \<longrightarrow>
           j < slice_len (Wd + 1 - kW) s \<longrightarrow> a < kH \<longrightarrow> b < kW \<longrightarrow>
           item t [(n * slice_len (Hd + 1 - kH) s + i) * slice_len (Wd + 1 - kW) s + j, c, a, b] =
           item x [n, c, slice_pos (Hd + 1 - kH) s i + a, slice_pos (Wd + 1 - kW) s j + b])"
proof -
  from extract_patches_content[OF sh pos fit s acc]
  obtain t where t: "extract_patches x C (int kH, int kW) s = Inr t"
    and rest: "shape t = [N * slice_len (Hd + 1 - kH) s * slice_len (Wd + 1 - kW) s, C, kH, kW]
    \<and> wellformed t
    \<and> (\<forall>n c i j a b. n < N \<longrightarrow> c < C \<longrightarrow> i < slice_len (Hd + 1 - kH) s \<longrightarrow>
           j < slice_len (Wd + 1 - kW) s \<longrightarrow> a < kH \<longrightarrow> b < kW \<longrightarrow>
           item t [(n * slice_len (Hd + 1 - kH) s + i) * slice_len (Wd + 1 - kW) s + j, c, a, b] =
           item x [n, c, slice_pos (Hd + 1 - kH) s i + a, slice_pos (Wd + 1 - kW) s j + b])"
    by blast
  have "sliding_window_snapshots arr (Some (int kH, int kW)) (Some s) = Inr (squeeze t)"
    by (simp add: sliding_window_snapshots_eq norm t)
  with t rest show ?thesis by blast
qed

lemma slice_len_positive: "0 < s \<Longrightarrow> k \<le> d \<Longrightarrow> slice_len (d + 1 - k) (int s) = (d - k) div s + 1"
  by (simp add: slice_len_def)

lemma slice_pos_positive: "0 < s \<Longrightarrow> slice_pos d (int s) i = i * s"
  by (simp add: slice_pos_def)

lemma slice_len_negative: "0 < m \<Longrightarrow> k \<le> d \<Longrightarrow> slice_len (d + 1 - k) (- int m) = (d - k) div m + 1"
  by (simp add: slice_len_def)

lemma slice_pos_negative: "0 < m \<Longrightarrow> k \<le> d \<Longrightarrow> slice_pos (d + 1 - k) (- int m) i = d - k - i * m"
  by (simp add: slice_pos_def)

section \<open>Patches of a standardised array\<close>

text \<open>
  Whenever the recorded channel count is the true, positive channel count of the
  standardised array, a positive stride gives \<open>N * Hpos * Wpos\<close> patches, the patch of
  sample \<open>n\<close> at window position \<open>(i, j)\<close> at index \<open>(n * Hpos + i) * Wpos + j\<close>. This covers
  every rank-2 input, every rank-3 input with at least one channel, and the rank-4 inputs
  with exactly three channels, provided Torch converts their element type and byte order.
\<close>

lemma standardised_patches:
  assumes norm: "normalize_rank arr = (x, C)"
    and sh: "shape x = [N, C, Hd, Wd]"
    and pos: "0 < C" "0 < kH" "0 < kW" "0 < s"
    and fit: "kH \<le> Hd" "kW \<le> Wd"
    and acc: "torch_accepts x"
  shows "\<exists>t. sliding_window_snapshots arr (Some (int kH, int kW)) (Some (int s)) = Inr (squeeze t)
    \<and> extract_patches x C (int kH, int kW) (int s) = Inr t
    \<and> shape t = [N * ((Hd - kH) div s + 1) * ((Wd - kW) div s + 1), C, kH, kW]
    \<and> wellformed t
    \<and> (\<forall>n c i j a b. n < N \<longrightarrow> c < C \<longrightarrow> i < (Hd - kH) div s + 1 \<longrightarrow>
           j < (Wd - kW) div s + 1 \<longrightarrow> a < kH \<longrightarrow> b < kW \<longrightarrow>
           item t [(n * ((Hd - kH) div s + 1) + i) * ((Wd - kW) div s + 1) + j, c, a, b] =
           item x [n, c, i * s + a, j * s + b])"
proof -
  have s: "int s \<noteq> 0" using pos(4) by simp
  have Hp: "slice_len (Hd + 1 - kH) (int s) = (Hd - kH) div s + 1"
    using pos(4) fit(1) by (rule slice_len_positive)
  have Wp: "slice_len (Wd + 1 - kW) (int s) = (Wd - kW) div s + 1"
    using pos(4) fit(2) by (rule slice_len_positive)
  have P: "slice_pos d (int s) i = i * s" for d i
    using pos(4) by (rule slice_pos_positive)
  show ?thesis
    by (rule snapshots_content[OF norm sh pos(1-3) fit s acc, unfolded Hp Wp P])
qed

text \<open>
  The positivity of the channel count matters: a rank-3 array with an empty channel axis
  passes every library call up to the reshape, which Torch refuses because the inferred
  extent would be ambiguous.
\<close>

lemma empty_channel_axis_raises:
  "sliding_window_snapshots (int64_array [0, 2, 2] []) (Some (1, 1)) (Some 1) =
     Inl RuntimeError"
  by code_simp

lemma reshape_shape:
  "reshape u C H W = Inr t \<Longrightarrow> \<exists>P. shape t = [P, C, H, W] \<and> data t = data u"
  by (auto simp: reshape_def Let_def split: if_splits)

lemma extract_patches_shape:
  assumes "extract_patches x C k s = Inr t"
  shows "\<exists>P kH kW. shape t = [P, C, kH, kW]"
proof -
  obtain H W where k: "k = (H, W)" by (cases k)
  from assms obtain u where "reshape u C (nat H) (nat W) = Inr t"
    by (auto simp: extract_patches_eq k split: sum.splits)
  then show ?thesis by (blast dest: reshape_shape)
qed

lemma normalize_rank_length:
  assumes "length (shape arr) \<in> {2, 3, 4}"
  shows "length (shape (fst (normalize_rank arr))) = 4"
  using assms by (auto simp: normalize_rank_eq new_axis_def Let_def)

section \<open>Arrays of unsupported rank\<close>

lemma sliding_window_view_rank:
  "sliding_window_view x k = Inr w \<Longrightarrow>
     2 \<le> length (shape x) \<and> length (shape w) = length (shape x) + 2"
  by (cases k) (auto simp: sliding_window_view_def Let_def shape_tabulate split: if_splits)

lemma subsample_rank: "subsample w s = Inr v \<Longrightarrow> length (shape v) = length (shape w)"
  by (auto simp: subsample_def Let_def shape_tabulate split: if_splits)

text \<open>No array of rank outside 2, 3 and 4 ever yields a result.\<close>

lemma unsupported_rank_no_result:
  assumes "length (shape arr) \<notin> {2, 3, 4}"
  shows "\<exists>e. sliding_window_snapshots arr kernel' stride = Inl e"
proof (cases "sliding_window_snapshots arr kernel' stride")
  case (Inl e)
  then show ?thesis by blast
next
  case (Inr t)
  have norm: "normalize_rank arr = (arr, 3)"
    using assms by (simp add: normalize_rank_eq)
  from Inr obtain k s w v v' u where w: "sliding_window_view arr k = Inr w"
    and v: "subsample w s = Inr v" and f: "from_numpy v = Inr v'" and u': "permute v' = Inr u"
    by (cases "the kernel'")
      (auto simp: sliding_window_snapshots_eq norm extract_patches_eq
        split: option.splits sum.splits)
  from from_numpy_Inr[OF f] u' have u: "permute v = Inr u" by simp
  from sliding_window_view_rank[OF w] subsample_rank[OF v]
  have "5 \<le> length (shape arr)" "length (shape v) = length (shape arr) + 2"
    using assms by auto
  then have "permute v = Inl RuntimeError" by (simp add: permute_def)
  with u show ?thesis by simp
qed

text \<open>
  Below rank 2 the window view itself refuses the array, with the \<open>ValueError\<close> subclass
  \<open>AxisError\<close>.
\<close>

lemma low_rank_axis_error:
  assumes "length (shape arr) < 2" "0 \<le> kH" "0 \<le> kW"
  shows "sliding_window_snapshots arr (Some (kH, kW)) (Some s) = Inl AxisError"
  using assms
  by (simp add: sliding_window_snapshots_eq normalize_rank_eq extract_patches_eq
      sliding_window_view_def)

lemma error_classes: "is_ValueError AxisError \<and> is_ValueError ValueError \<and> \<not> is_ValueError RuntimeError"
  by (simp add: is_ValueError_def)

section \<open>The claims\<close>

text \<open>
  Claim C1 (patch contents and order for every input of rank 2, 3 or 4). The function
  evaluated on a rank-4 batch with one channel, shape (1, 1, 2, 2), kernel (1, 1) and
  stride 1: the claim asks for the four one-element patches in row-major order, and the
  function raises \<open>RuntimeError\<close>, because its four elements do not fill patches of the
  three channels it assumes for every rank-4 input.
\<close>

theorem batch_one_channel_raises:
  "sliding_window_snapshots batch_one_channel (Some (1, 1)) (Some 1) = Inl RuntimeError"
  by code_simp

text \<open>
  Claim C2 (patch count \<open>N * Hpos * Wpos\<close>). The function evaluated on a rank-4 batch of
  shape (1, 6, 1, 1) with kernel (1, 1) and stride 1: the formula gives one patch, and the
  function records three channels and returns two patches, of three channels each.
\<close>

theorem batch_six_channels_patch_count:
  "normalize_rank batch_six_channels = (batch_six_channels, 3) \<and>
   extract_patches batch_six_channels 3 (1, 1) 1 =
     Inr (int64_array [2, 3, 1, 1] [0, 1, 2, 3, 4, 5]) \<and>
   sliding_window_snapshots batch_six_channels (Some (1, 1)) (Some 1) =
     Inr (int64_array [2, 3] [0, 1, 2, 3, 4, 5])"
  by code_simp

text \<open>
  Claim C3 (an array of rank outside 2, 3 and 4 fails with an unsupported-shape error).
  The function evaluated on an array of rank 5, shape (1, 1, 1, 2, 2), with kernel (1, 1)
  and stride 1: the window view accepts the array, and the error raised is the
  \<open>RuntimeError\<close> of the permutation, not the \<open>ValueError\<close> documented for an unsupported
  dimensionality.
\<close>

theorem rank5_raises_runtime_error:
  "sliding_window_snapshots rank5_array (Some (1, 1)) (Some 1) = Inl RuntimeError"
  by code_simp

text \<open>
  Claim C4. On the array of shape (4, 4) holding 0 to 15 in row-major order, with
  kernel (2, 2) and stride 2, the function returns a tensor of shape (4, 2, 2) whose
  patches are, in this order, [[0,1],[4,5]], [[2,3],[6,7]], [[8,9],[12,13]] and
  [[10,11],[14,15]].
\<close>

theorem example_4x4_patches:
  "sliding_window_snapshots example_4x4 (Some (2, 2)) (Some 2) =
     Inr (int64_array [4, 2, 2]
           [0, 1, 4, 5,  2, 3, 6, 7,  8, 9, 12, 13,  10, 11, 14, 15])"
  by code_simp

text \<open>
  Claim C5. A rank-2 input of shape (H, W) is standardised to (1, 1, H, W) with channel
  count 1, and a rank-3 input of shape (C, H, W) to (1, C, H, W) with channel count C, its
  first axis; the function extracts its patches from that array with that channel count.
\<close>

theorem normalize_rank_channel_count:
  "(shape arr = [H, W] \<longrightarrow>
      normalize_rank arr = (arr\<lparr>shape := [1, 1, H, W]\<rparr>, 1) \<and>
      sliding_window_snapshots arr (Some k) (Some s) =
        (case extract_patches (arr\<lparr>shape := [1, 1, H, W]\<rparr>) 1 k s of
           Inl e \<Rightarrow> Inl e | Inr t \<Rightarrow> Inr (squeeze t))) \<and>
   (shape arr = [C, H, W] \<longrightarrow>
      normalize_rank arr = (arr\<lparr>shape := [1, C, H, W]\<rparr>, C) \<and>
      sliding_window_snapshots arr (Some k) (Some s) =
        (case extract_patches (arr\<lparr>shape := [1, C, H, W]\<rparr>) C k s of
           Inl e \<Rightarrow> Inl e | Inr t \<Rightarrow> Inr (squeeze t)))"
  by (simp add: normalize_rank_eq new_axis_def sliding_window_snapshots_eq Let_def)

theorem normalize_rank_channel_count_witness:
  "normalize_rank gray_2x2 = (int64_array [1, 1, 2, 2] [5, 6, 7, 8], 1) \<and>
   normalize_rank rgb_2x2 =
     (int64_array [1, 3, 2, 2] [0, 1, 2, 3, 4, 5, 6, 7, 8, 9, 10, 11], 3)"
proof -
  have g: "shape gray_2x2 = [2, 2]" by (simp add: gray_2x2_def int64_array_def)
  have r: "shape rgb_2x2 = [3, 2, 2]" by (simp add: rgb_2x2_def int64_array_def)
  from normalize_rank_channel_count[of gray_2x2 2 2 "(1, 1)" 1 3] g
  have 1: "normalize_rank gray_2x2 = (gray_2x2\<lparr>shape := [1, 1, 2, 2]\<rparr>, 1)" by blast
  from normalize_rank_channel_count[of rgb_2x2 2 2 "(1, 1)" 1 3] r
  have 2: "normalize_rank rgb_2x2 = (rgb_2x2\<lparr>shape := [1, 3, 2, 2]\<rparr>, 3)" by blast
  from 1 2 show ?thesis by (simp add: gray_2x2_def rgb_2x2_def int64_array_def)
qed

text \<open>
  Claim C6. Whenever the function returns a tensor, it is the squeezed tensor of patches
  of shape (P, C, kH, kW): no axis of length 1 is left in it, so the channel axis is gone
  when C = 1 and the leading axis is gone when P = 1.
\<close>

theorem squeeze_removes_singleton_axes:
  assumes "sliding_window_snapshots arr kernel' stride = Inr t"
  shows "1 \<notin> set (shape t) \<and>
    (\<exists>x C k s u P kH kW.
       normalize_rank arr = (x, C) \<and> kernel' = Some k \<and> stride = Some s \<and>
       extract_patches x C k s = Inr u \<and> shape u = [P, C, kH, kW] \<and>
       t = squeeze u \<and>
       shape t = filter (\<lambda>d. d \<noteq> 1) [P, C, kH, kW] \<and>
       (C = 1 \<longrightarrow> shape t = filter (\<lambda>d. d \<noteq> 1) [P, kH, kW]) \<and>
       (P = 1 \<longrightarrow> shape t = filter (\<lambda>d. d \<noteq> 1) [C, kH, kW]))"
proof -
  obtain x C where norm: "normalize_rank arr = (x, C)" by (cases "normalize_rank arr")
  from assms obtain k s u where ks: "kernel' = Some k" "stride = Some s"
    and u: "extract_patches x C k s = Inr u" and t: "t = squeeze u"
    by (auto simp: sliding_window_snapshots_eq norm split: option.splits sum.splits)
  from extract_patches_shape[OF u] obtain P kH kW where sh: "shape u = [P, C, kH, kW]"
    by blast
  have st: "shape t = filter (\<lambda>d. d \<noteq> 1) [P, C, kH, kW]"
    by (simp add: t squeeze_def sh)
  have 1: "1 \<notin> set (shape t)" by (simp add: t squeeze_def)
  have 2: "C = 1 \<longrightarrow> shape t = filter (\<lambda>d. d \<noteq> 1) [P, kH, kW]"
    using st by simp
  have 3: "P = 1 \<longrightarrow> shape t = filter (\<lambda>d. d \<noteq> 1) [C, kH, kW]"
    using st by simp
  from norm ks u sh t st 1 2 3 show ?thesis by blast
qed

theorem squeeze_removes_singleton_axes_witness:
  "sliding_window_snapshots gray_2x2 (Some (2, 2)) (Some 1) =
     Inr (int64_array [2, 2] [5, 6, 7, 8]) \<and>
   extract_patches (fst (normalize_rank gray_2x2)) (snd (normalize_rank gray_2x2)) (2, 2) 1 =
     Inr (int64_array [1, 1, 2, 2] [5, 6, 7, 8]) \<and>
   1 \<notin> set (shape (int64_array [2, 2] [5, 6, 7, 8]))"
proof -
  have r: "sliding_window_snapshots gray_2x2 (Some (2, 2)) (Some 1) =
     Inr (int64_array [2, 2] [5, 6, 7, 8])"
    by code_simp
  have e: "extract_patches (fst (normalize_rank gray_2x2)) (snd (normalize_rank gray_2x2)) (2, 2) 1 =
     Inr (int64_array [1, 1, 2, 2] [5, 6, 7, 8])"
    by code_simp
  from squeeze_removes_singleton_axes[OF r]
  have "1 \<notin> set (shape (int64_array [2, 2] [5, 6, 7, 8]))" by blast
  with r e show ?thesis by blast
qed

text \<open>
  The log of a call that passes the check, on the 2 x 2 sample: both rank tests read the
  shape, the array is indexed, handed to the window view, and its elements are copied.
\<close>

lemma array_reads_sample:
  "array_reads gray_2x2 (Some (2, 2)) (Some 1) =
     [ReadShape, ReadShape, Index, WindowView, CopyElements]"
  by code_simp

text \<open>
  Claim C7. When \<open>kernel\<close> or \<open>stride\<close> is \<open>None\<close> the function raises \<open>AssertionError\<close>,
  whatever the array is, and it has not touched the array: whatever the log was before
  the call, it is the same after it, so a call from the empty log leaves no read of the
  array.
\<close>

theorem missing_argument_fails_before_access:
  "kernel' = None \<or> stride = None \<Longrightarrow>
     sliding_window_snapshots arr kernel' stride = Inl AssertionError \<and>
     \<not> array_accessed arr kernel' stride \<and>
     array_reads arr kernel' stride = [] \<and>
     run arr kernel' stride log = (Inl AssertionError, log)"
  by (auto simp: sliding_window_snapshots_def array_accessed_def array_reads_def run_def
      split: option.splits)

theorem missing_argument_fails_before_access_witness:
  "sliding_window_snapshots gray_2x2 None (Some 1) = Inl AssertionError \<and>
   \<not> array_accessed gray_2x2 None (Some 1) \<and>
   run gray_2x2 None (Some 1) [ReadShape] = (Inl AssertionError, [ReadShape]) \<and>
   sliding_window_snapshots gray_2x2 (Some (1, 1)) None = Inl AssertionError \<and>
   \<not> array_accessed gray_2x2 (Some (1, 1)) None \<and>
   run gray_2x2 (Some (1, 1)) None [] = (Inl AssertionError, [])"
  using missing_argument_fails_before_access[of None "Some 1" gray_2x2 "[ReadShape]"]
    missing_argument_fails_before_access[of "Some (1, 1)" None gray_2x2 "[]"]
  by simp

text \<open>
  Claim C8. For an input of rank 2, 3 or 4 and a kernel that exceeds the height or the
  width of the standardised array, the window view raises \<open>ValueError\<close> and the function
  passes it on, whatever the stride is.
\<close>

theorem kernel_larger_than_image:
  assumes rank: "length (shape arr) \<in> {2, 3, 4}"
    and norm: "normalize_rank arr = (x, C)"
    and big: "int (shape x ! 2) < kH \<or> int (shape x ! 3) < kW"
  shows "sliding_window_view x (kH, kW) = Inl ValueError \<and>
         sliding_window_snapshots arr (Some (kH, kW)) (Some s) = Inl ValueError"
proof -
  have len: "length (shape x) = 4"
    using normalize_rank_length[OF rank] norm by simp
  have w: "sliding_window_view x (kH, kW) = Inl ValueError"
    using big by (auto simp: sliding_window_view_def Let_def len)
  then show ?thesis
    by (simp add: sliding_window_snapshots_eq norm extract_patches_eq)
qed

theorem kernel_larger_than_image_witness:
  "sliding_window_snapshots gray_2x2 (Some (3, 1)) (Some 1) = Inl ValueError \<and>
   sliding_window_snapshots gray_2x2 (Some (1, 3)) (Some 1) = Inl ValueError"
proof -
  have rank: "length (shape gray_2x2) \<in> {2, 3, 4}"
    by (simp add: gray_2x2_def int64_array_def)
  have norm: "normalize_rank gray_2x2 = (int64_array [1, 1, 2, 2] [5, 6, 7, 8], 1)"
    by (simp add: normalize_rank_eq new_axis_def gray_2x2_def int64_array_def)
  have 1: "sliding_window_snapshots gray_2x2 (Some (3, 1)) (Some 1) = Inl ValueError"
    using kernel_larger_than_image[OF rank norm, of 3 1 1] by (simp add: int64_array_def)
  have 2: "sliding_window_snapshots gray_2x2 (Some (1, 3)) (Some 1) = Inl ValueError"
    using kernel_larger_than_image[OF rank norm, of 1 3 1] by (simp add: int64_array_def)
  from 1 2 show ?thesis by blast
qed




text \<open>
  Claim C10. The stride is never checked to be positive. With an array and kernel the
  function accepts, stride 0 passes the check of \<open>kernel\<close> and \<open>stride\<close> (the array is
  read, the window view is built) and fails in the subsampling slice with \<open>ValueError\<close>;
  a negative stride \<open>-m\<close> raises nothing and returns the patches at the window positions
  \<open>H - kH, H - kH - m, ...\<close> and \<open>W - kW, W - kW - m, ...\<close>, that is from the last window
  backwards. An array the function accepts is one whose element type and byte order Torch
  converts; the failure at stride 0 comes before the conversion and needs no such
  condition.
\<close>

theorem stride_is_not_validated:
  assumes norm: "normalize_rank arr = (x, C)"
    and sh: "shape x = [N, C, Hd, Wd]"
    and pos: "0 < C" "0 < kH" "0 < kW" "0 < m"
    and fit: "kH \<le> Hd" "kW \<le> Wd"
  shows "sliding_window_snapshots arr (Some (int kH, int kW)) (Some 0) = Inl ValueError
    \<and> array_accessed arr (Some (int kH, int kW)) (Some 0)
    \<and> (\<exists>w. sliding_window_view x (int kH, int kW) = Inr w \<and> subsample w 0 = Inl ValueError)
    \<and> (torch_accepts x \<longrightarrow>
        (\<exists>t. sliding_window_snapshots arr (Some (int kH, int kW)) (Some (- int m)) = Inr (squeeze t)
          \<and> shape t = [N * ((Hd - kH) div m + 1) * ((Wd - kW) div m + 1), C, kH, kW]
          \<and> (\<forall>n<N. \<forall>i<(Hd - kH) div m + 1. \<forall>j<(Wd - kW) div m + 1. \<forall>c<C. \<forall>a<kH. \<forall>b<kW.
                item t [(n * ((Hd - kH) div m + 1) + i) * ((Wd - kW) div m + 1) + j, c, a, b] =
                item x [n, c, Hd - kH - i * m + a, Wd - kW - j * m + b])))"
proof -
  from sliding_window_view_rank4[OF sh fit]
  obtain w where w: "sliding_window_view x (int kH, int kW) = Inr w"
    "shape w = [N, C, Hd + 1 - kH, Wd + 1 - kW, kH, kW]"
    by blast
  have z: "subsample w 0 = Inl ValueError"
    by (simp add: subsample_def w(2))
  have 1: "sliding_window_snapshots arr (Some (int kH, int kW)) (Some 0) = Inl ValueError"
    by (simp add: sliding_window_snapshots_eq norm extract_patches_eq w(1) z)
  have 2: "array_accessed arr (Some (int kH, int kW)) (Some 0)"
    by (rule passed_check_reads_array)
  have 3: "\<exists>w. sliding_window_view x (int kH, int kW) = Inr w \<and> subsample w 0 = Inl ValueError"
    using w(1) z by blast
  have s: "- int m \<noteq> 0" using pos(4) by simp
  have Hp: "slice_len (Hd + 1 - kH) (- int m) = (Hd - kH) div m + 1"
    using pos(4) fit(1) by (rule slice_len_negative)
  have Wp: "slice_len (Wd + 1 - kW) (- int m) = (Wd - kW) div m + 1"
    using pos(4) fit(2) by (rule slice_len_negative)
  have PH: "slice_pos (Hd + 1 - kH) (- int m) i = Hd - kH - i * m" for i
    using pos(4) fit(1) by (rule slice_pos_negative)
  have PW: "slice_pos (Wd + 1 - kW) (- int m) j = Wd - kW - j * m" for j
    using pos(4) fit(2) by (rule slice_pos_negative)
  have 4: "torch_accepts x \<longrightarrow>
        (\<exists>t. sliding_window_snapshots arr (Some (int kH, int kW)) (Some (- int m)) = Inr (squeeze t)
          \<and> shape t = [N * ((Hd - kH) div m + 1) * ((Wd - kW) div m + 1), C, kH, kW]
          \<and> (\<forall>n<N. \<forall>i<(Hd - kH) div m + 1. \<forall>j<(Wd - kW) div m + 1. \<forall>c<C. \<forall>a<kH. \<forall>b<kW.
                item t [(n * ((Hd - kH) div m + 1) + i) * ((Wd - kW) div m + 1) + j, c, a, b] =
                item x [n, c, Hd - kH - i * m + a, Wd - kW - j * m + b]))"
  proof
    assume acc: "torch_accepts x"
    from snapshots_content[OF norm sh pos(1-3) fit s acc, unfolded Hp Wp PH PW]
    show "\<exists>t. sliding_window_snapshots arr (Some (int kH, int kW)) (Some (- int m)) = Inr (squeeze t)
          \<and> shape t = [N * ((Hd - kH) div m + 1) * ((Wd - kW) div m + 1), C, kH, kW]
          \<and> (\<forall>n<N. \<forall>i<(Hd - kH) div m + 1. \<forall>j<(Wd - kW) div m + 1. \<forall>c<C. \<forall>a<kH. \<forall>b<kW.
                item t [(n * ((Hd - kH) div m + 1) + i) * ((Wd - kW) div m + 1) + j, c, a, b] =
                item x [n, c, Hd - kH - i * m + a, Wd - kW - j * m + b])"
      by blast
  qed
  from 1 2 3 4 show ?thesis by (intro conjI)
qed

theorem stride_is_not_validated_witness:
  "sliding_window_snapshots rgb_4x4 (Some (2, 2)) (Some 0) = Inl ValueError
   \<and> (\<exists>t. sliding_window_snapshots rgb_4x4 (Some (2, 2)) (Some (- 2)) = Inr (squeeze t)
         \<and> shape t = [4, 3, 2, 2]
         \<and> item t [0, 0, 0, 0] = item (rgb_4x4\<lparr>shape := [1, 3, 4, 4]\<rparr>) [0, 0, 2, 2]
         \<and> item t [3, 0, 0, 0] = item (rgb_4x4\<lparr>shape := [1, 3, 4, 4]\<rparr>) [0, 0, 0, 0])"
proof -
  have sh0: "shape rgb_4x4 = [3, 4, 4]" by (simp add: rgb_4x4_def int64_array_def)
  have norm: "normalize_rank rgb_4x4 = (rgb_4x4\<lparr>shape := [1, 3, 4, 4]\<rparr>, 3)"
    by (simp add: normalize_rank_eq new_axis_def sh0)
  have sh: "shape (rgb_4x4\<lparr>shape := [1, 3, 4, 4]\<rparr>) = [1, 3, 4, 4]" by simp
  have acc: "torch_accepts (rgb_4x4\<lparr>shape := [1, 3, 4, 4]\<rparr>)"
    by (simp add: rgb_4x4_def int64_array_def torch_accepts_def)
  have p3: "0 < (3::nat)" and p2: "0 < (2::nat)" and fit: "(2::nat) \<le> 4" by simp_all
  note th = stride_is_not_validated[OF norm sh p3 p2 p2 p2 fit fit]
  have 1: "sliding_window_snapshots rgb_4x4 (Some (2, 2)) (Some 0) = Inl ValueError"
    using th[THEN conjunct1] by simp
  from th[THEN conjunct2, THEN conjunct2, THEN conjunct2, THEN mp, OF acc]
  obtain t where t:
    "sliding_window_snapshots rgb_4x4 (Some (int 2, int 2)) (Some (- int 2)) = Inr (squeeze t)"
    "shape t = [1 * ((4 - 2) div 2 + 1) * ((4 - 2) div 2 + 1), 3, 2, 2]"
    "\<forall>n<1. \<forall>i<(4 - 2) div 2 + 1. \<forall>j<(4 - 2) div 2 + 1. \<forall>c<3. \<forall>a<2. \<forall>b<2.
        item t [(n * ((4 - 2) div 2 + 1) + i) * ((4 - 2) div 2 + 1) + j, c, a, b] =
        item (rgb_4x4\<lparr>shape := [1, 3, 4, 4]\<rparr>) [n, c, 4 - 2 - i * 2 + a, 4 - 2 - j * 2 + b]"
    by (elim exE conjE)
  have 2: "sliding_window_snapshots rgb_4x4 (Some (2, 2)) (Some (- 2)) = Inr (squeeze t)"
    using t(1) by simp
  have 3: "shape t = [4, 3, 2, 2]"
    using t(2) by simp
  have 4: "item t [0, 0, 0, 0] = item (rgb_4x4\<lparr>shape := [1, 3, 4, 4]\<rparr>) [0, 0, 2, 2]"
    using t(3)[rule_format, of 0 0 0 0 0 0] by simp
  have 5: "item t [3, 0, 0, 0] = item (rgb_4x4\<lparr>shape := [1, 3, 4, 4]\<rparr>) [0, 0, 0, 0]"
    using t(3)[rule_format, of 0 1 1 0 0 0] by (simp add: eval_nat_numeral)
  from 2 3 4 5 have "\<exists>t. sliding_window_snapshots rgb_4x4 (Some (2, 2)) (Some (- 2)) = Inr (squeeze t)
         \<and> shape t = [4, 3, 2, 2]
         \<and> item t [0, 0, 0, 0] = item (rgb_4x4\<lparr>shape := [1, 3, 4, 4]\<rparr>) [0, 0, 2, 2]
         \<and> item t [3, 0, 0, 0] = item (rgb_4x4\<lparr>shape := [1, 3, 4, 4]\<rparr>) [0, 0, 0, 0]"
    by (intro exI[of _ t] conjI)
  with 1 show ?thesis by (intro conjI)
qed

end
